theory Spec2Isabelle
  imports Main
begin

section \<open>Replication setup helper of b2sdk (b2sdk/replication/setup.py)\<close>

text \<open>
  A shallow embedding of \<^verbatim>\<open>ReplicationSetupHelper\<close>. Python's unbounded integers are
  \<^typ>\<open>int\<close>, strings are \<^typ>\<open>string\<close> (one list element per character of the Python
  string), \<^verbatim>\<open>None\<close>-able values are options, an insertion-ordered \<^verbatim>\<open>dict\<close> is an
  association list with distinct keys, and a raised exception is the left summand of a
  sum type.
\<close>

subsection \<open>Data model\<close>

text \<open>The exceptions that can leave the helper: Python's \<^verbatim>\<open>AttributeError\<close> on an
  attribute access on \<^verbatim>\<open>None\<close>, the \<^verbatim>\<open>ValueError\<close> of a constructor that rejects its
  arguments, and whatever the bucket's conditional update raises.\<close>

datatype error = AttributeError | ValueError | UpdateFailed string

record ReplicationRule =
  name :: string
  priority :: int
  destination_bucket_id :: string
  file_name_prefix :: string
  include_existing_files :: bool

record ReplicationSourceConfiguration =
  source_application_key_id :: "string option"
  rules :: "ReplicationRule list"

record ReplicationDestinationConfiguration =
  source_to_destination_key_mapping :: "(string \<times> string) list"

record ReplicationConfiguration =
  as_replication_source :: "ReplicationSourceConfiguration option"
  as_replication_destination :: "ReplicationDestinationConfiguration option"

record ApplicationKey =
  key_id :: string
  key_name :: string
  name_prefix :: "string option"
  capabilities :: "string list"

record Bucket =
  bucket_id :: string
  bucket_name :: string
  revision :: int
  replication :: "ReplicationConfiguration option"

text \<open>The class constants \<^verbatim>\<open>ReplicationRule.DEFAULT_PRIORITY\<close> and
  \<^verbatim>\<open>ReplicationRule.MAX_PRIORITY\<close> are declared in b2sdk/replication/setting.py; the helper
  only copies them, so they are parameters of the model. So is the pattern that the class
  demands of a rule name, given as the predicate \<open>rule_name_ok\<close>.\<close>

record Settings =
  DEFAULT_PRIORITY :: int
  MAX_PRIORITY :: int
  rule_name_ok :: "string \<Rightarrow> bool"

text \<open>Modelled from the spec: the constructor of \<^verbatim>\<open>ReplicationRule\<close> (b2sdk/replication/setting.py
  is not part of the sources). A rule's priority is bounded by \<open>[1, MAX_PRIORITY]\<close>: the
  constructor stores its arguments and raises \<^verbatim>\<open>ValueError\<close> when the destination bucket id
  is empty, when the name does not match the class's pattern, or when the priority lies
  outside \<open>[1, MAX_PRIORITY]\<close>.\<close>

definition new_ReplicationRule ::
  "Settings \<Rightarrow> string \<Rightarrow> int \<Rightarrow> string \<Rightarrow> string \<Rightarrow> bool \<Rightarrow> error + ReplicationRule" where
  "new_ReplicationRule cls rule_name prio dest_id prefix include_existing =
     (if dest_id = [] then Inl ValueError
      else if \<not> rule_name_ok cls rule_name then Inl ValueError
      else if \<not> (1 \<le> prio \<and> prio \<le> MAX_PRIORITY cls) then Inl ValueError
      else Inr \<lparr>name = rule_name, priority = prio, destination_bucket_id = dest_id,
                file_name_prefix = prefix, include_existing_files = include_existing\<rparr>)"

definition PRIORITY_OFFSET :: int where
  "PRIORITY_OFFSET = 5"

definition DEFAULT_SOURCE_CAPABILITIES :: "string list" where
  "DEFAULT_SOURCE_CAPABILITIES = [''readFiles'', ''readFileLegalHolds'', ''readFileRetentions'']"

definition DEFAULT_DESTINATION_CAPABILITIES :: "string list" where
  "DEFAULT_DESTINATION_CAPABILITIES =
     [''writeFiles'', ''writeFileLegalHolds'', ''writeFileRetentions'', ''deleteFiles'']"

subsection \<open>Priority of a new rule\<close>

text \<open>Python's \<^verbatim>\<open>max\<close> over a non-empty iterable keeps the largest element seen so far;
  it is only called on a non-empty rule list.\<close>

fun py_max :: "int list \<Rightarrow> int" where
  "py_max [] = 0"
| "py_max (x # xs) = fold max xs x"

definition get_priority_for_new_rule ::
  "Settings \<Rightarrow> ReplicationRule list \<Rightarrow> int option \<Rightarrow> int" where
  "get_priority_for_new_rule cls current_rules priority_arg =
     (case priority_arg of
        Some p \<Rightarrow> p
      | None \<Rightarrow>
          if current_rules \<noteq> [] then
            (let existing_priority = py_max (map priority current_rules)
             in min (existing_priority + PRIORITY_OFFSET) (MAX_PRIORITY cls))
          else DEFAULT_PRIORITY cls)"

subsection \<open>Name of a new rule\<close>

text \<open>\<^verbatim>\<open>str\<close> on the non-negative integers that \<^verbatim>\<open>itertools.count(2)\<close> yields: the decimal
  numeral without leading zeros.\<close>

definition digit_char :: "nat \<Rightarrow> char" where
  "digit_char d = char_of (48 + d)"

fun str :: "nat \<Rightarrow> string" where
  "str n = (if n < 10 then [digit_char n] else str (n div 10) @ [digit_char (n mod 10)])"

declare str.simps [simp del]

text \<open>\<^verbatim>\<open>map(str, itertools.chain([''], itertools.count(2)))\<close>: an endless iterator, given
  here by its element at each position.\<close>

fun get_rule_name_candidate_suffixes :: "nat \<Rightarrow> string" where
  "get_rule_name_candidate_suffixes 0 = []"
| "get_rule_name_candidate_suffixes (Suc i) = str (i + 2)"

text \<open>The \<^verbatim>\<open>while True\<close> loop of \<^verbatim>\<open>_get_new_rule_name\<close>; \<open>i\<close> is the position of the
  iterator. The result \<open>None\<close> stands for a loop that never returns.\<close>

partial_function (option) new_rule_name_loop ::
  "string \<Rightarrow> string list \<Rightarrow> nat \<Rightarrow> string option" where
  "new_rule_name_loop bname existing_names i =
     (let candidate = bname @ get_rule_name_candidate_suffixes i
      in if candidate \<notin> set existing_names then Some candidate
         else new_rule_name_loop bname existing_names (Suc i))"

declare new_rule_name_loop.simps [code]

text \<open>The same loop cut off after \<open>n\<close> iterations, to count them.\<close>

fun new_rule_name_loop_within :: "nat \<Rightarrow> string \<Rightarrow> string list \<Rightarrow> nat \<Rightarrow> string option" where
  "new_rule_name_loop_within 0 bname existing_names i = None"
| "new_rule_name_loop_within (Suc n) bname existing_names i =
     (let candidate = bname @ get_rule_name_candidate_suffixes i
      in if candidate \<notin> set existing_names then Some candidate
         else new_rule_name_loop_within n bname existing_names (Suc i))"

definition get_new_rule_name ::
  "ReplicationRule list \<Rightarrow> Bucket \<Rightarrow> string option \<Rightarrow> string option" where
  "get_new_rule_name current_rules destination_bucket name_arg =
     (case name_arg of
        Some n \<Rightarrow> Some n
      | None \<Rightarrow>
          new_rule_name_loop (bucket_name destination_bucket) (map name current_rules) 0)"


subsection \<open>The storage service\<close>

text \<open>The helper reaches the service through \<^verbatim>\<open>bucket.api\<close> and \<^verbatim>\<open>bucket.update\<close>, which
  live in other modules. They are parameters of the model: \<open>'w\<close> is the state of the
  service, \<open>api_get_key\<close> reads it, \<open>api_create_key\<close> and \<open>bucket_update\<close> may change it.
  \<^verbatim>\<open>get_key\<close> receives \<^verbatim>\<open>None\<close> when no source key id is set.\<close>

record CreateKeyRequest =
  req_capabilities :: "string list"
  req_key_name :: string
  req_bucket_id :: string
  req_name_prefix :: "string option"

record 'w Service =
  api_get_key :: "'w \<Rightarrow> string option \<Rightarrow> ApplicationKey option"
  api_create_key :: "'w \<Rightarrow> CreateKeyRequest \<Rightarrow> ApplicationKey \<times> 'w"
  bucket_update :: "'w \<Rightarrow> Bucket \<Rightarrow> int \<Rightarrow> ReplicationConfiguration \<Rightarrow> error + Bucket \<times> 'w"

text \<open>Modelled from the spec: \<^verbatim>\<open>ApplicationKey.has_capabilities\<close> (b2sdk/application_key.py is
  not part of the sources) is a plain set-containment test over the capability strings.\<close>

definition has_capabilities :: "ApplicationKey \<Rightarrow> string list \<Rightarrow> bool" where
  "has_capabilities k required = (set required \<subseteq> set (capabilities k))"

text \<open>Python's truth value of an optional string: \<^verbatim>\<open>None\<close> and \<^verbatim>\<open>''\<close> are false.\<close>

definition truthy :: "string option \<Rightarrow> bool" where
  "truthy s = (case s of None \<Rightarrow> False | Some t \<Rightarrow> t \<noteq> [])"

text \<open>\<^verbatim>\<open>d[k] = v\<close> on an insertion-ordered dict: an existing key keeps its position, a new
  key goes to the end.\<close>

fun dict_setitem :: "('k \<times> 'v) list \<Rightarrow> 'k \<Rightarrow> 'v \<Rightarrow> ('k \<times> 'v) list" where
  "dict_setitem [] k v = [(k, v)]"
| "dict_setitem ((k', v') # d) k v =
     (if k' = k then (k, v) # d else (k', v') # dict_setitem d k v)"

subsection \<open>Key creation\<close>

definition create_key ::
  "'w Service \<Rightarrow> 'w \<Rightarrow> string \<Rightarrow> Bucket \<Rightarrow> string option \<Rightarrow> string list \<Rightarrow> ApplicationKey \<times> 'w" where
  "create_key api w kname bucket prefix caps =
     api_create_key api w
       \<lparr>req_capabilities = caps, req_key_name = kname,
        req_bucket_id = bucket_id bucket, req_name_prefix = prefix\<rparr>"

definition create_source_key ::
  "'w Service \<Rightarrow> 'w \<Rightarrow> string \<Rightarrow> Bucket \<Rightarrow> string option \<Rightarrow> ApplicationKey \<times> 'w" where
  "create_source_key api w kname bucket prefix =
     (let prefix = None;
          caps = DEFAULT_SOURCE_CAPABILITIES
      in create_key api w kname bucket prefix caps)"

definition create_destination_key ::
  "'w Service \<Rightarrow> 'w \<Rightarrow> string \<Rightarrow> Bucket \<Rightarrow> string option \<Rightarrow> ApplicationKey \<times> 'w" where
  "create_destination_key api w kname bucket prefix =
     (let caps = DEFAULT_DESTINATION_CAPABILITIES
      in create_key api w kname bucket prefix caps)"

subsection \<open>The source key\<close>

text \<open>The expression
  \<^verbatim>\<open>current_replication_configuration.as_replication_source.source_application_key_id\<close>:
  each attribute access on \<^verbatim>\<open>None\<close> raises \<^verbatim>\<open>AttributeError\<close>.\<close>

definition configured_source_key_id :: "ReplicationConfiguration option \<Rightarrow> error + string option" where
  "configured_source_key_id current_replication_configuration =
     (case current_replication_configuration of
        None \<Rightarrow> Inl AttributeError
      | Some c \<Rightarrow>
          (case as_replication_source c of
             None \<Rightarrow> Inl AttributeError
           | Some s \<Rightarrow> Inr (source_application_key_id s)))"

definition should_make_new_source_key ::
  "ReplicationConfiguration option \<Rightarrow> ApplicationKey option \<Rightarrow> error + bool" where
  "should_make_new_source_key current_replication_configuration current_source_key =
     (case configured_source_key_id current_replication_configuration of
        Inl e \<Rightarrow> Inl e
      | Inr None \<Rightarrow> Inr True
      | Inr (Some i) \<Rightarrow>
          (case current_source_key of
             None \<Rightarrow> Inr True
           | Some k \<Rightarrow>
               if truthy (name_prefix k) then Inr True
               else if \<not> has_capabilities k DEFAULT_SOURCE_CAPABILITIES then Inr True
               else Inr False))"

definition get_source_key ::
  "'w Service \<Rightarrow> 'w \<Rightarrow> Bucket \<Rightarrow> string \<Rightarrow> ReplicationConfiguration option \<Rightarrow>
     ReplicationRule list \<Rightarrow> error + ApplicationKey option \<times> 'w" where
  "get_source_key api w source_bucket prefix current_replication_configuration current_source_rules =
     (case configured_source_key_id current_replication_configuration of
        Inl e \<Rightarrow> Inl e
      | Inr i \<Rightarrow>
          (let current_source_key = api_get_key api w i
           in case should_make_new_source_key current_replication_configuration current_source_key of
                Inl e \<Rightarrow> Inl e
              | Inr do_create_key \<Rightarrow>
                  if \<not> do_create_key then Inr (current_source_key, w)
                  else (let (new_key, w') =
                              create_source_key api w
                                (take 91 (bucket_name source_bucket) @ ''-replisrc'')
                                source_bucket (Some prefix)
                        in Inr (Some new_key, w'))))"

subsection \<open>Setting up the source bucket\<close>

text \<open>The two \<^verbatim>\<open>try\<close> blocks read \<^verbatim>\<open>source_bucket.replication.as_replication_source.rules\<close>
  and \<^verbatim>\<open>source_bucket.replication.as_replication_destination\<close> and turn an
  \<^verbatim>\<open>AttributeError\<close> into the empty rule list and \<^verbatim>\<open>None\<close>. The new rule is built by the
  validating constructor before the configuration is put together, so a rejected rule
  ends the call with \<^verbatim>\<open>ValueError\<close> and nothing is submitted; the constructors of the
  two configuration classes store their arguments. The outer option of the result is
  \<open>None\<close> when the rule name loop does not return.\<close>

definition setup_source ::
  "Settings \<Rightarrow> 'w Service \<Rightarrow> 'w \<Rightarrow> Bucket \<Rightarrow> Bucket \<Rightarrow> string option \<Rightarrow> string option \<Rightarrow>
     int option \<Rightarrow> bool \<Rightarrow> (error + Bucket \<times> 'w) option" where
  "setup_source cls api w source_bucket destination_bucket prefix_arg name_arg priority_arg
       include_existing =
     (let prefix = (case prefix_arg of None \<Rightarrow> [] | Some p \<Rightarrow> p);
          current_source_rules =
            (case replication source_bucket of
               None \<Rightarrow> []
             | Some c \<Rightarrow> (case as_replication_source c of None \<Rightarrow> [] | Some s \<Rightarrow> rules s));
          destination_configuration =
            (case replication source_bucket of
               None \<Rightarrow> None
             | Some c \<Rightarrow> as_replication_destination c)
      in case get_source_key api w source_bucket prefix (replication source_bucket)
                current_source_rules of
           Inl e \<Rightarrow> Some (Inl e)
         | Inr (source_key, w') \<Rightarrow>
             (let prio = get_priority_for_new_rule cls current_source_rules priority_arg
              in case get_new_rule_name current_source_rules destination_bucket name_arg of
                   None \<Rightarrow> None
                 | Some rule_name \<Rightarrow>
                     (case new_ReplicationRule cls rule_name prio
                             (bucket_id destination_bucket) prefix include_existing of
                        Inl e \<Rightarrow> Some (Inl e)
                      | Inr new_rr \<Rightarrow>
                          (case source_key of
                             None \<Rightarrow> Some (Inl AttributeError)
                           | Some k \<Rightarrow>
                               Some (bucket_update api w' source_bucket
                                       (revision source_bucket)
                                       \<lparr>as_replication_source =
                                          Some \<lparr>source_application_key_id = Some (key_id k),
                                                rules = current_source_rules @ [new_rr]\<rparr>,
                                        as_replication_destination =
                                          destination_configuration\<rparr>)))))"

subsection \<open>The destination key\<close>

text \<open>The \<^verbatim>\<open>for\<close> loop of \<^verbatim>\<open>_get_destination_key\<close> over the values of the mapping; the
  accumulator holds \<^verbatim>\<open>keys_to_purge\<close> and \<^verbatim>\<open>key\<close>.\<close>

fun destination_key_scan ::
  "'w Service \<Rightarrow> 'w \<Rightarrow> string list \<Rightarrow> string list \<times> ApplicationKey option \<Rightarrow>
     string list \<times> ApplicationKey option" where
  "destination_key_scan api w [] (keys_to_purge, key) = (keys_to_purge, key)"
| "destination_key_scan api w (current_destination_key_id # ids) (keys_to_purge, key) =
     (case api_get_key api w (Some current_destination_key_id) of
        None \<Rightarrow>
          destination_key_scan api w ids (keys_to_purge @ [current_destination_key_id], key)
      | Some current_destination_key \<Rightarrow>
          if has_capabilities current_destination_key DEFAULT_DESTINATION_CAPABILITIES
             \<and> \<not> truthy (name_prefix current_destination_key)
          then destination_key_scan api w ids (keys_to_purge, Some current_destination_key)
          else destination_key_scan api w ids (keys_to_purge, key))"

definition get_destination_key ::
  "'w Service \<Rightarrow> 'w \<Rightarrow> Bucket \<Rightarrow> ReplicationDestinationConfiguration \<Rightarrow>
     (string list \<times> ApplicationKey) \<times> 'w" where
  "get_destination_key api w destination_bucket destination_configuration =
     (let current_destination_key_ids =
            map snd (source_to_destination_key_mapping destination_configuration);
          (keys_to_purge, key) =
            destination_key_scan api w current_destination_key_ids ([], None)
      in case key of
           None \<Rightarrow>
             (let (new_key, w') =
                    create_destination_key api w
                      (take 91 (bucket_name destination_bucket) @ ''-replidst'')
                      destination_bucket None
              in ((keys_to_purge, new_key), w'))
         | Some k \<Rightarrow> ((keys_to_purge, k), w))"

subsection \<open>Setting up the destination bucket\<close>

text \<open>The assignment into \<^verbatim>\<open>source_to_destination_key_mapping\<close> changes the dict in place.
  When the bucket already had a destination configuration, that dict is the bucket's own,
  so the bucket object handed to \<^verbatim>\<open>update\<close> shows the new entry as well.\<close>

definition setup_destination ::
  "'w Service \<Rightarrow> 'w \<Rightarrow> string \<Rightarrow> Bucket \<Rightarrow> error + Bucket \<times> 'w" where
  "setup_destination api w source_key_id destination_bucket =
     (let source_configuration =
            (case replication destination_bucket of
               None \<Rightarrow> None
             | Some c \<Rightarrow> as_replication_source c);
          destination_configuration =
            (case replication destination_bucket of
               None \<Rightarrow> \<lparr>source_to_destination_key_mapping = []\<rparr>
             | Some c \<Rightarrow>
                 (case as_replication_destination c of
                    None \<Rightarrow> \<lparr>source_to_destination_key_mapping = []\<rparr>
                  | Some d \<Rightarrow> d));
          ((keys_to_purge, destination_key), w') =
            get_destination_key api w destination_bucket destination_configuration;
          destination_configuration' =
            destination_configuration
              \<lparr>source_to_destination_key_mapping :=
                 dict_setitem (source_to_destination_key_mapping destination_configuration)
                   source_key_id (key_id destination_key)\<rparr>;
          destination_bucket' =
            (case replication destination_bucket of
               None \<Rightarrow> destination_bucket
             | Some c \<Rightarrow>
                 (case as_replication_destination c of
                    None \<Rightarrow> destination_bucket
                  | Some d \<Rightarrow>
                      destination_bucket
                        \<lparr>replication :=
                           Some (c\<lparr>as_replication_destination := Some destination_configuration'\<rparr>)\<rparr>));
          new_replication_configuration =
            \<lparr>as_replication_source = source_configuration,
             as_replication_destination = Some destination_configuration'\<rparr>
      in bucket_update api w' destination_bucket' (revision destination_bucket)
           new_replication_configuration)"

subsection \<open>An in-memory service\<close>

text \<open>Modelled from the spec: a storage service whose state is the list of keys of the
  account. \<^verbatim>\<open>get_key\<close> finds a key by its id, \<^verbatim>\<open>create_key\<close> stores a key with the requested
  name, capabilities and prefix under a fresh id, and \<^verbatim>\<open>update\<close> is a conditional write
  that fails when the revision differs. It serves to run the helper on concrete inputs.\<close>

definition memory_get_key :: "ApplicationKey list \<Rightarrow> string option \<Rightarrow> ApplicationKey option" where
  "memory_get_key ks i =
     (case i of None \<Rightarrow> None | Some j \<Rightarrow> find (\<lambda>k. key_id k = j) ks)"

definition memory_create_key ::
  "ApplicationKey list \<Rightarrow> CreateKeyRequest \<Rightarrow> ApplicationKey \<times> ApplicationKey list" where
  "memory_create_key ks req =
     (let k = \<lparr>key_id = ''key-'' @ str (length ks), key_name = req_key_name req,
               name_prefix = req_name_prefix req, capabilities = req_capabilities req\<rparr>
      in (k, ks @ [k]))"

definition memory_update ::
  "ApplicationKey list \<Rightarrow> Bucket \<Rightarrow> int \<Rightarrow> ReplicationConfiguration \<Rightarrow>
     error + Bucket \<times> ApplicationKey list" where
  "memory_update ks b if_revision_is cfg =
     (if if_revision_is = revision b
      then Inr (b\<lparr>revision := revision b + 1, replication := Some cfg\<rparr>, ks)
      else Inl (UpdateFailed ''revision''))"

definition memory_service :: "ApplicationKey list Service" where
  "memory_service =
     \<lparr>api_get_key = memory_get_key, api_create_key = memory_create_key,
      bucket_update = memory_update\<rparr>"

subsection \<open>Sample inputs\<close>

text \<open>Concrete values on which the theorems below are instantiated.\<close>

text \<open>A name pattern for the sample settings: one to 64 letters, digits, underscores and
  hyphens.\<close>

definition sample_rule_name_ok :: "string \<Rightarrow> bool" where
  "sample_rule_name_ok n =
     (1 \<le> length n \<and> length n \<le> 64
      \<and> list_all (\<lambda>c. c \<in> set (''abcdefghijklmnopqrstuvwxyz'' @ ''ABCDEFGHIJKLMNOPQRSTUVWXYZ''
                                  @ ''0123456789_-'')) n)"

definition sample_settings :: Settings where
  "sample_settings =
     \<lparr>DEFAULT_PRIORITY = 128, MAX_PRIORITY = 2147483647, rule_name_ok = sample_rule_name_ok\<rparr>"

definition sample_rule :: "string \<Rightarrow> int \<Rightarrow> ReplicationRule" where
  "sample_rule n p =
     \<lparr>name = n, priority = p, destination_bucket_id = ''bucket-id-2'',
      file_name_prefix = [], include_existing_files = False\<rparr>"

definition sample_bucket :: "string \<Rightarrow> string \<Rightarrow> ReplicationConfiguration option \<Rightarrow> Bucket" where
  "sample_bucket i n r = \<lparr>bucket_id = i, bucket_name = n, revision = 1, replication = r\<rparr>"

definition sample_key :: "string \<Rightarrow> string option \<Rightarrow> string list \<Rightarrow> ApplicationKey" where
  "sample_key i p caps = \<lparr>key_id = i, key_name = ''some-key'', name_prefix = p, capabilities = caps\<rparr>"

section \<open>Properties\<close>

subsection \<open>Auxiliary facts\<close>

lemma py_max_Max:
  assumes "xs \<noteq> []"
  shows "py_max xs = Max (set xs)"
proof (cases xs)
  case Nil
  with assms show ?thesis by simp
next
  case (Cons a list)
  then show ?thesis using Max.set_eq_fold[of a list] by simp
qed

lemma digit_char_inj: "a < 10 \<Longrightarrow> b < 10 \<Longrightarrow> digit_char a = digit_char b \<Longrightarrow> a = b"
  by (simp add: digit_char_def char_of_eq_iff take_bit_nat_eq_self)

lemma str_unfold: "str n = (if n < 10 then [] else str (n div 10)) @ [digit_char (n mod 10)]"
  by (subst str.simps) simp

lemma str_nonempty: "str n \<noteq> []"
  by (subst str.simps) simp

text \<open>Two numbers with the same decimal numeral are equal: compare the last digits, then
  the numerals of the quotients.\<close>

lemma str_inj: "str m = str n \<Longrightarrow> m = n"
proof (induction m arbitrary: n rule: str.induct)
  case (1 m)
  from "1.prems" have eq: "(if m < 10 then [] else str (m div 10)) @ [digit_char (m mod 10)]
      = (if n < 10 then [] else str (n div 10)) @ [digit_char (n mod 10)]"
    using str_unfold by metis
  then have d: "digit_char (m mod 10) = digit_char (n mod 10)"
    and r: "(if m < 10 then [] else str (m div 10)) = (if n < 10 then [] else str (n div 10))"
    by simp_all
  from d have md: "m mod 10 = n mod 10"
    by (intro digit_char_inj) simp_all
  have dv: "m div 10 = n div 10"
  proof (cases "m < 10")
    case True
    with r have "n < 10" using str_nonempty by metis
    with True show ?thesis by simp
  next
    case False
    with r have nn: "\<not> n < 10" using str_nonempty by metis
    with r False have "str (m div 10) = str (n div 10)" by simp
    with "1.IH" False show ?thesis by simp
  qed
  show ?case using md dv by (metis div_mult_mod_eq)
qed

lemma suffixes_inj:
  "get_rule_name_candidate_suffixes i = get_rule_name_candidate_suffixes j \<Longrightarrow> i = j"
proof (cases i; cases j)
  fix a b assume "get_rule_name_candidate_suffixes i = get_rule_name_candidate_suffixes j"
    "i = Suc a" "j = Suc b"
  then have "str (a + 2) = str (b + 2)" by simp
  then have "a + 2 = b + 2" by (rule str_inj)
  then show "i = j" using \<open>i = Suc a\<close> \<open>j = Suc b\<close> by simp
qed (use str_nonempty in \<open>auto dest: sym\<close>)

lemma candidates_inj_on: "inj_on (\<lambda>i. bname @ get_rule_name_candidate_suffixes i) A"
  by (rule inj_onI) (simp add: suffixes_inj)

text \<open>The first \<open>n + 1\<close> candidates are distinct, so \<open>n\<close> existing names cannot hold them
  all.\<close>

lemma free_candidate_exists:
  "\<exists>k\<le>length existing_names. bname @ get_rule_name_candidate_suffixes k \<notin> set existing_names"
proof (rule ccontr)
  let ?c = "\<lambda>i. bname @ get_rule_name_candidate_suffixes i"
  assume "\<not> ?thesis"
  then have sub: "?c ` {..length existing_names} \<subseteq> set existing_names" by auto
  have "card (?c ` {..length existing_names}) = Suc (length existing_names)"
    by (simp add: card_image candidates_inj_on)
  moreover have "card (?c ` {..length existing_names}) \<le> card (set existing_names)"
    using sub by (simp add: card_mono)
  moreover have "card (set existing_names) \<le> length existing_names"
    by (rule card_length)
  ultimately show False by simp
qed

lemma first_free_candidate:
  "\<exists>k\<le>length existing_names.
     bname @ get_rule_name_candidate_suffixes k \<notin> set existing_names
     \<and> (\<forall>j<k. bname @ get_rule_name_candidate_suffixes j \<in> set existing_names)"
proof -
  let ?P = "\<lambda>k. bname @ get_rule_name_candidate_suffixes k \<notin> set existing_names"
  obtain k0 where k0: "k0 \<le> length existing_names" "?P k0"
    using free_candidate_exists by blast
  define k where "k = (LEAST k. ?P k)"
  have "?P k" unfolding k_def using k0(2) by (rule LeastI)
  moreover have "k \<le> k0" unfolding k_def using k0(2) by (rule Least_le)
  moreover have "\<forall>j<k. \<not> ?P j" unfolding k_def using not_less_Least by blast
  ultimately show ?thesis using k0(1) by (intro exI[of _ k]) auto
qed

text \<open>Started at position \<open>i\<close>, the loop returns the candidate at the first free position
  \<open>k\<close> from \<open>i\<close> on.\<close>

lemma loop_reaches:
  assumes "bname @ get_rule_name_candidate_suffixes k \<notin> set existing_names"
    and "\<forall>j. i \<le> j \<and> j < k \<longrightarrow> bname @ get_rule_name_candidate_suffixes j \<in> set existing_names"
    and "i \<le> k"
  shows "new_rule_name_loop bname existing_names i = Some (bname @ get_rule_name_candidate_suffixes k)"
  using assms
proof (induction "k - i" arbitrary: i)
  case 0
  then have "i = k" by simp
  with 0 show ?case by (subst new_rule_name_loop.simps) simp
next
  case (Suc d)
  then have "i < k" by simp
  with Suc.prems have taken: "bname @ get_rule_name_candidate_suffixes i \<in> set existing_names"
    by simp
  have "new_rule_name_loop bname existing_names (Suc i)
      = Some (bname @ get_rule_name_candidate_suffixes k)"
    using Suc.hyps(2) Suc.prems \<open>i < k\<close> by (intro Suc.hyps(1)) auto
  with taken show ?case by (subst new_rule_name_loop.simps) simp
qed

lemma within_reaches:
  assumes "bname @ get_rule_name_candidate_suffixes k \<notin> set existing_names"
    and "\<forall>j. i \<le> j \<and> j < k \<longrightarrow> bname @ get_rule_name_candidate_suffixes j \<in> set existing_names"
    and "i \<le> k" and "k - i < n"
  shows "new_rule_name_loop_within n bname existing_names i
     = Some (bname @ get_rule_name_candidate_suffixes k)"
  using assms
proof (induction n arbitrary: i)
  case 0
  then show ?case by simp
next
  case (Suc n)
  show ?case
  proof (cases "i = k")
    case True
    with Suc.prems show ?thesis by simp
  next
    case False
    with Suc.prems have "i < k" by simp
    with Suc.prems have taken: "bname @ get_rule_name_candidate_suffixes i \<in> set existing_names"
      by simp
    have "new_rule_name_loop_within n bname existing_names (Suc i)
      = Some (bname @ get_rule_name_candidate_suffixes k)"
      using Suc.prems \<open>i < k\<close> by (intro Suc.IH) auto
    with taken show ?thesis by simp
  qed
qed

lemma get_new_rule_name_returns:
  "\<exists>c. get_new_rule_name current_rules destination_bucket name_arg = Some c"
proof (cases name_arg)
  case None
  obtain k where "bucket_name destination_bucket @ get_rule_name_candidate_suffixes k
        \<notin> set (map name current_rules)"
    "\<forall>j<k. bucket_name destination_bucket @ get_rule_name_candidate_suffixes j
        \<in> set (map name current_rules)"
    using first_free_candidate[of "map name current_rules" "bucket_name destination_bucket"]
    by blast
  then have "new_rule_name_loop (bucket_name destination_bucket) (map name current_rules) 0
      = Some (bucket_name destination_bucket @ get_rule_name_candidate_suffixes k)"
    by (intro loop_reaches) auto
  with None show ?thesis by (simp add: get_new_rule_name_def)
next
  case (Some n)
  then show ?thesis by (simp add: get_new_rule_name_def)
qed

lemma str_small: "str 0 = ''0''" "str (Suc 0) = ''1''" "str (Suc (Suc 0)) = ''2''"
  by code_simp+

lemma py_max_bounds:
  assumes "xs \<noteq> []" and "\<forall>x \<in> set xs. lo \<le> x \<and> x \<le> hi"
  shows "lo \<le> py_max xs \<and> py_max xs \<le> hi"
proof -
  have "py_max xs \<in> set xs"
    using assms(1) py_max_Max[OF assms(1)] Max_in[of "set xs"] by simp
  with assms(2) show ?thesis by blast
qed

lemma computed_priority_bounds:
  assumes "\<forall>r \<in> set R. 1 \<le> priority r \<and> priority r \<le> MAX_PRIORITY cls"
    and "1 \<le> DEFAULT_PRIORITY cls" and "DEFAULT_PRIORITY cls \<le> MAX_PRIORITY cls"
  shows "1 \<le> get_priority_for_new_rule cls R None
         \<and> get_priority_for_new_rule cls R None \<le> MAX_PRIORITY cls"
proof (cases "R = []")
  case True
  with assms show ?thesis by (simp add: get_priority_for_new_rule_def)
next
  case False
  then have "1 \<le> py_max (map priority R) \<and> py_max (map priority R) \<le> MAX_PRIORITY cls"
    using assms(1) by (intro py_max_bounds) auto
  with False show ?thesis
    by (simp add: get_priority_for_new_rule_def PRIORITY_OFFSET_def)
qed

text \<open>The decision of \<^verbatim>\<open>_should_make_new_source_key\<close> on a configuration that has a
  source side.\<close>

lemma should_make_new_source_key_decision:
  assumes "as_replication_source cfg = Some src"
  shows "should_make_new_source_key (Some cfg) current_source_key
     = Inr (source_application_key_id src = None
            \<or> current_source_key = None
            \<or> (\<exists>k. current_source_key = Some k
                 \<and> (truthy (name_prefix k) \<or> \<not> has_capabilities k DEFAULT_SOURCE_CAPABILITIES)))"
  using assms
  by (simp add: should_make_new_source_key_def configured_source_key_id_def
      split: option.splits)

lemma get_source_key_creates:
  assumes "configured_source_key_id cfg = Inr i"
    and "should_make_new_source_key cfg (api_get_key api w i) = Inr True"
  shows "get_source_key api w source_bucket prefix cfg current_source_rules
     = (let (new_key, w') =
              api_create_key api w
                \<lparr>req_capabilities = DEFAULT_SOURCE_CAPABILITIES,
                 req_key_name = take 91 (bucket_name source_bucket) @ ''-replisrc'',
                 req_bucket_id = bucket_id source_bucket, req_name_prefix = None\<rparr>
        in Inr (Some new_key, w'))"
  using assms
  by (simp add: get_source_key_def create_source_key_def create_key_def)

lemma get_source_key_reuses:
  assumes "configured_source_key_id cfg = Inr i"
    and "should_make_new_source_key cfg (api_get_key api w i) = Inr False"
  shows "\<exists>k. api_get_key api w i = Some k
     \<and> get_source_key api w source_bucket prefix cfg current_source_rules = Inr (Some k, w)"
  using assms
  by (auto simp add: get_source_key_def should_make_new_source_key_def
      split: option.splits if_splits)

text \<open>The scan appends the unresolved ids to the purge list and keeps the last matching key.\<close>

lemma destination_key_scan_eq:
  "destination_key_scan api w ids (keys_to_purge, key)
     = (keys_to_purge @ filter (\<lambda>i. api_get_key api w (Some i) = None) ids,
        (let matching =
               filter (\<lambda>k. has_capabilities k DEFAULT_DESTINATION_CAPABILITIES
                            \<and> \<not> truthy (name_prefix k))
                 (List.map_filter (\<lambda>i. api_get_key api w (Some i)) ids)
         in if matching = [] then key else Some (last matching)))"
proof (induction ids arbitrary: keys_to_purge key)
  case Nil
  then show ?case by (simp add: List.map_filter_simps)
next
  case (Cons i ids)
  show ?case
  proof (cases "api_get_key api w (Some i)")
    case None
    then show ?thesis by (simp add: Cons.IH List.map_filter_simps)
  next
    case (Some k)
    then show ?thesis by (simp add: Cons.IH List.map_filter_simps Let_def)
  qed
qed

text \<open>The constructor accepts a rule exactly when the destination bucket id is not empty,
  the name matches the pattern and the priority lies in \<open>[1, MAX_PRIORITY]\<close>.\<close>

lemma new_ReplicationRule_eq:
  "new_ReplicationRule cls n p d f e =
     (if d \<noteq> [] \<and> rule_name_ok cls n \<and> 1 \<le> p \<and> p \<le> MAX_PRIORITY cls
      then Inr \<lparr>name = n, priority = p, destination_bucket_id = d, file_name_prefix = f,
                include_existing_files = e\<rparr>
      else Inl ValueError)"
  by (simp add: new_ReplicationRule_def)

text \<open>On a bucket with a source side, \<^verbatim>\<open>setup_source\<close> obtains a source key and a rule name;
  it then reaches the update with the configuration below when the constructor accepts the
  new rule, and ends with \<^verbatim>\<open>ValueError\<close> otherwise.\<close>

lemma setup_source_result:
  assumes "replication source_bucket = Some cfg" and "as_replication_source cfg = Some src"
  shows "\<exists>(k::ApplicationKey) w' rule_name.
      get_source_key api w source_bucket (case prefix_arg of None \<Rightarrow> [] | Some p \<Rightarrow> p)
          (Some cfg) (rules src) = Inr (Some k, w')
      \<and> get_new_rule_name (rules src) destination_bucket name_arg = Some rule_name
      \<and> setup_source cls api w source_bucket destination_bucket prefix_arg name_arg priority_arg
          include_existing
        = (if bucket_id destination_bucket \<noteq> [] \<and> rule_name_ok cls rule_name
              \<and> 1 \<le> get_priority_for_new_rule cls (rules src) priority_arg
              \<and> get_priority_for_new_rule cls (rules src) priority_arg \<le> MAX_PRIORITY cls
           then Some (bucket_update api w' source_bucket (revision source_bucket)
            \<lparr>as_replication_source =
               Some \<lparr>source_application_key_id = Some (key_id k),
                     rules = rules src @
                       [\<lparr>name = rule_name,
                         priority = get_priority_for_new_rule cls (rules src) priority_arg,
                         destination_bucket_id = bucket_id destination_bucket,
                         file_name_prefix = (case prefix_arg of None \<Rightarrow> [] | Some p \<Rightarrow> p),
                         include_existing_files = include_existing\<rparr>]\<rparr>,
             as_replication_destination = as_replication_destination cfg\<rparr>)
           else Some (Inl ValueError))"
proof -
  let ?prefix = "case prefix_arg of None \<Rightarrow> [] | Some p \<Rightarrow> p"
  have i: "configured_source_key_id (Some cfg) = Inr (source_application_key_id src)"
    using assms(2) by (simp add: configured_source_key_id_def)
  obtain do_create where d: "should_make_new_source_key (Some cfg)
      (api_get_key api w (source_application_key_id src)) = Inr do_create"
    using should_make_new_source_key_decision[OF assms(2)] by blast
  have "\<exists>k w'. get_source_key api w source_bucket ?prefix (Some cfg) (rules src) = Inr (Some k, w')"
  proof (cases do_create)
    case True
    with d get_source_key_creates[OF i, of api w source_bucket ?prefix "rules src"]
    show ?thesis
      by (simp add: Let_def split: prod.splits)
  next
    case False
    with d get_source_key_reuses[OF i, of api w source_bucket ?prefix "rules src"]
    show ?thesis by auto
  qed
  then obtain k w' where k: "get_source_key api w source_bucket ?prefix (Some cfg) (rules src)
      = Inr (Some k, w')" by blast
  obtain rule_name where n: "get_new_rule_name (rules src) destination_bucket name_arg
      = Some rule_name"
    using get_new_rule_name_returns by blast
  have "setup_source cls api w source_bucket destination_bucket prefix_arg name_arg priority_arg
          include_existing
        = (if bucket_id destination_bucket \<noteq> [] \<and> rule_name_ok cls rule_name
              \<and> 1 \<le> get_priority_for_new_rule cls (rules src) priority_arg
              \<and> get_priority_for_new_rule cls (rules src) priority_arg \<le> MAX_PRIORITY cls
           then Some (bucket_update api w' source_bucket (revision source_bucket)
            \<lparr>as_replication_source =
               Some \<lparr>source_application_key_id = Some (key_id k),
                     rules = rules src @
                       [\<lparr>name = rule_name,
                         priority = get_priority_for_new_rule cls (rules src) priority_arg,
                         destination_bucket_id = bucket_id destination_bucket,
                         file_name_prefix = ?prefix,
                         include_existing_files = include_existing\<rparr>]\<rparr>,
             as_replication_destination = as_replication_destination cfg\<rparr>)
           else Some (Inl ValueError))"
    using assms k n by (simp add: setup_source_def Let_def new_ReplicationRule_eq)
  with k n show ?thesis by blast
qed

lemma dict_setitem_map_of: "map_of (dict_setitem d k v) = (map_of d)(k \<mapsto> v)"
  by (induction d) auto

lemma dict_setitem_others:
  "filter (\<lambda>e. fst e \<noteq> k) (dict_setitem d k v) = filter (\<lambda>e. fst e \<noteq> k) d"
  by (induction d) auto

lemma dict_setitem_keeps: "(k', v') \<in> set d \<Longrightarrow> k' \<noteq> k \<Longrightarrow> (k', v') \<in> set (dict_setitem d k v)"
  by (induction d) auto

lemmas memory_defs = memory_service_def memory_get_key_def memory_create_key_def
  memory_update_def sample_key_def sample_bucket_def sample_rule_def sample_settings_def

lemmas helper_defs = has_capabilities_def truthy_def DEFAULT_SOURCE_CAPABILITIES_def
  DEFAULT_DESTINATION_CAPABILITIES_def

subsection \<open>Priority of a new rule\<close>

text \<open>Claim C2: an explicit priority is returned as it is, whatever the current rules are;
  without one, a non-empty rule list gives the largest existing priority plus 5, capped at
  \<open>MAX_PRIORITY\<close>, and an empty rule list gives \<open>DEFAULT_PRIORITY\<close>.\<close>

theorem get_priority_for_new_rule_cases:
  "get_priority_for_new_rule cls R (Some p) = p
   \<and> (R \<noteq> [] \<longrightarrow>
        get_priority_for_new_rule cls R None
          = min (Max (priority ` set R) + 5) (MAX_PRIORITY cls))
   \<and> get_priority_for_new_rule cls [] None = DEFAULT_PRIORITY cls"
proof -
  have "R \<noteq> [] \<Longrightarrow> py_max (map priority R) = Max (priority ` set R)"
    using py_max_Max[of "map priority R"] by simp
  then show ?thesis
    by (simp add: get_priority_for_new_rule_def PRIORITY_OFFSET_def)
qed

theorem get_priority_for_new_rule_cases_witness:
  "[sample_rule ''a'' 7, sample_rule ''b'' 2147483645, sample_rule ''c'' 9] \<noteq> []
   \<and> get_priority_for_new_rule sample_settings
       [sample_rule ''a'' 7, sample_rule ''b'' 2147483645, sample_rule ''c'' 9] None = 2147483647
   \<and> get_priority_for_new_rule sample_settings
       [sample_rule ''a'' 7, sample_rule ''b'' 2147483645, sample_rule ''c'' 9] (Some 7) = 7"
  using get_priority_for_new_rule_cases
    [of sample_settings "[sample_rule ''a'' 7, sample_rule ''b'' 2147483645, sample_rule ''c'' 9]" 7]
  by (simp add: sample_settings_def sample_rule_def)

subsection \<open>Name of a new rule\<close>

text \<open>Claim C10: without an explicit name, \<^verbatim>\<open>_get_new_rule_name\<close> returns, and it does so
  within (number of current rules) + 1 iterations of its loop; the name it returns is not
  the name of a current rule.\<close>

theorem get_new_rule_name_terminates:
  "\<exists>c. new_rule_name_loop_within (length current_rules + 1) (bucket_name destination_bucket)
          (map name current_rules) 0 = Some c
       \<and> get_new_rule_name current_rules destination_bucket None = Some c
       \<and> c \<notin> name ` set current_rules"
proof -
  let ?E = "map name current_rules" and ?b = "bucket_name destination_bucket"
  obtain k where k: "k \<le> length ?E" "?b @ get_rule_name_candidate_suffixes k \<notin> set ?E"
    "\<forall>j<k. ?b @ get_rule_name_candidate_suffixes j \<in> set ?E"
    using first_free_candidate[of ?E ?b] by blast
  have "new_rule_name_loop_within (length current_rules + 1) ?b ?E 0
      = Some (?b @ get_rule_name_candidate_suffixes k)"
    using k by (intro within_reaches) auto
  moreover have "new_rule_name_loop ?b ?E 0 = Some (?b @ get_rule_name_candidate_suffixes k)"
    using k by (intro loop_reaches) auto
  ultimately show ?thesis using k(2) by (simp add: get_new_rule_name_def)
qed

text \<open>Claim C3: an explicit name is returned as it is. Without one, the candidates are the
  destination bucket's name followed by the suffixes \<^verbatim>\<open>''\<close>, \<^verbatim>\<open>2\<close>, \<^verbatim>\<open>3\<close>, ... in this
  order (the first ten are spelled out; in general the numeral of \<open>i + 2\<close> stands at
  position \<open>i + 1\<close>), and the result is the first candidate
  that is not the name of a current rule: if the candidate at position \<open>k\<close> is free and all
  earlier ones are taken, it is the one returned.\<close>

theorem get_new_rule_name_first_free:
  "get_new_rule_name current_rules destination_bucket (Some n) = Some n
   \<and> (bucket_name destination_bucket @ get_rule_name_candidate_suffixes k
          \<notin> name ` set current_rules
        \<and> (\<forall>j<k. bucket_name destination_bucket @ get_rule_name_candidate_suffixes j
              \<in> name ` set current_rules)
      \<longrightarrow> get_new_rule_name current_rules destination_bucket None
            = Some (bucket_name destination_bucket @ get_rule_name_candidate_suffixes k))
   \<and> map get_rule_name_candidate_suffixes [0..<5] = ['''', ''2'', ''3'', ''4'', ''5'']
   \<and> map get_rule_name_candidate_suffixes [5..<10] = [''6'', ''7'', ''8'', ''9'', ''10'']
   \<and> get_rule_name_candidate_suffixes (Suc i) = str (i + 2)"
proof -
  have "map get_rule_name_candidate_suffixes [0..<5] = ['''', ''2'', ''3'', ''4'', ''5'']"
    by code_simp
  moreover
  have "map get_rule_name_candidate_suffixes [5..<10] = [''6'', ''7'', ''8'', ''9'', ''10'']"
    by code_simp
  moreover have "get_new_rule_name current_rules destination_bucket None
            = Some (bucket_name destination_bucket @ get_rule_name_candidate_suffixes k)"
    if "bucket_name destination_bucket @ get_rule_name_candidate_suffixes k
          \<notin> name ` set current_rules"
      and "\<forall>j<k. bucket_name destination_bucket @ get_rule_name_candidate_suffixes j
              \<in> name ` set current_rules"
    using that loop_reaches[of "bucket_name destination_bucket" k "map name current_rules" 0]
    by (simp add: get_new_rule_name_def)
  ultimately show ?thesis
    by (simp add: get_new_rule_name_def)
qed

theorem get_new_rule_name_first_free_witness:
  "get_new_rule_name [sample_rule ''dest-1'' 128, sample_rule ''dest-12'' 133]
      (sample_bucket ''bucket-id-2'' ''dest-1'' None) None = Some ''dest-13''
   \<and> ''dest-1'' @ get_rule_name_candidate_suffixes 2
        \<notin> name ` set [sample_rule ''dest-1'' 128, sample_rule ''dest-12'' 133]
   \<and> ''dest-1'' @ get_rule_name_candidate_suffixes 0
        \<in> name ` set [sample_rule ''dest-1'' 128, sample_rule ''dest-12'' 133]
   \<and> ''dest-1'' @ get_rule_name_candidate_suffixes 1
        \<in> name ` set [sample_rule ''dest-1'' 128, sample_rule ''dest-12'' 133]"
proof -
  have s: "get_rule_name_candidate_suffixes 2 = ''3''"
    "get_rule_name_candidate_suffixes (Suc 0) = ''2''"
    by code_simp+
  have lt: "\<And>j::nat. j < 2 \<longleftrightarrow> j = 0 \<or> j = Suc 0" by auto
  have h: "bucket_name (sample_bucket ''bucket-id-2'' ''dest-1'' None) @ get_rule_name_candidate_suffixes 2
          \<notin> name ` set [sample_rule ''dest-1'' 128, sample_rule ''dest-12'' 133]
        \<and> (\<forall>j<2. bucket_name (sample_bucket ''bucket-id-2'' ''dest-1'' None) @ get_rule_name_candidate_suffixes j
              \<in> name ` set [sample_rule ''dest-1'' 128, sample_rule ''dest-12'' 133])"
    by (auto simp add: s lt sample_rule_def sample_bucket_def simp del: get_rule_name_candidate_suffixes.simps(2))
  have r: "get_new_rule_name [sample_rule ''dest-1'' 128, sample_rule ''dest-12'' 133]
      (sample_bucket ''bucket-id-2'' ''dest-1'' None) None = Some ''dest-13''"
    using get_new_rule_name_first_free
      [of "[sample_rule ''dest-1'' 128, sample_rule ''dest-12'' 133]"
        "sample_bucket ''bucket-id-2'' ''dest-1'' None" "[]" 2 0] h
    by (simp add: s sample_bucket_def)
  have c2: "''dest-1'' @ get_rule_name_candidate_suffixes 2
        \<notin> name ` set [sample_rule ''dest-1'' 128, sample_rule ''dest-12'' 133]"
    by (simp add: s sample_rule_def)
  have c0: "''dest-1'' @ get_rule_name_candidate_suffixes 0
        \<in> name ` set [sample_rule ''dest-1'' 128, sample_rule ''dest-12'' 133]"
    by (simp add: sample_rule_def)
  have c1: "''dest-1'' @ get_rule_name_candidate_suffixes 1
        \<in> name ` set [sample_rule ''dest-1'' 128, sample_rule ''dest-12'' 133]"
    using s(2) by (simp add: sample_rule_def del: get_rule_name_candidate_suffixes.simps(2))
  from r c2 c0 c1 show ?thesis by (intro conjI) assumption+
qed

subsection \<open>Priority bounds\<close>

text \<open>Claim C7, as stated, fails in its second half: \<^verbatim>\<open>_get_priority_for_new_rule\<close> returns
  an explicit priority unchanged, so with one existing rule of priority 7, which is in
  range, and the explicit priority 0 its result is 0, outside \<open>[1, MAX_PRIORITY]\<close>.\<close>

theorem explicit_priority_out_of_range:
  "1 \<le> priority (sample_rule ''a'' 7)
   \<and> priority (sample_rule ''a'' 7) \<le> MAX_PRIORITY sample_settings
   \<and> \<not> (1 \<le> get_priority_for_new_rule sample_settings [sample_rule ''a'' 7] (Some 0)
        \<and> get_priority_for_new_rule sample_settings [sample_rule ''a'' 7] (Some 0)
             \<le> MAX_PRIORITY sample_settings)"
  by (simp add: get_priority_for_new_rule_def sample_settings_def sample_rule_def)

text \<open>Claim C7, amended: every rule that \<^verbatim>\<open>setup_source\<close> submits, whether its priority was
  given by the caller or computed, has its priority in \<open>[1, MAX_PRIORITY]\<close>: on a bucket with
  a source side, a priority outside that range ends the call with \<^verbatim>\<open>ValueError\<close> (raised by
  the constructor of the rule) before anything is submitted, and every other outcome is
  either \<^verbatim>\<open>ValueError\<close> or the update with a rule whose priority is in range.
  \<^verbatim>\<open>_get_priority_for_new_rule\<close> itself returns a value in \<open>[1, MAX_PRIORITY]\<close> when no
  explicit priority is given, every existing priority is in that range and so is
  \<open>DEFAULT_PRIORITY\<close>; an explicit priority it returns as given.\<close>

theorem priority_of_new_rule_in_range:
  "((\<forall>r \<in> set R. 1 \<le> priority r \<and> priority r \<le> MAX_PRIORITY cls)
      \<and> 1 \<le> DEFAULT_PRIORITY cls \<and> DEFAULT_PRIORITY cls \<le> MAX_PRIORITY cls
    \<longrightarrow> 1 \<le> get_priority_for_new_rule cls R None
        \<and> get_priority_for_new_rule cls R None \<le> MAX_PRIORITY cls)
   \<and> get_priority_for_new_rule cls R (Some p) = p
   \<and> (replication source_bucket = Some cfg \<and> as_replication_source cfg = Some src
       \<longrightarrow> (\<not> (1 \<le> get_priority_for_new_rule cls (rules src) priority_arg
                 \<and> get_priority_for_new_rule cls (rules src) priority_arg \<le> MAX_PRIORITY cls)
             \<longrightarrow> setup_source cls api w source_bucket destination_bucket prefix_arg name_arg
                   priority_arg include_existing = Some (Inl ValueError))
           \<and> (setup_source cls api w source_bucket destination_bucket prefix_arg name_arg
                 priority_arg include_existing = Some (Inl ValueError)
               \<or> (1 \<le> get_priority_for_new_rule cls (rules src) priority_arg
                   \<and> get_priority_for_new_rule cls (rules src) priority_arg \<le> MAX_PRIORITY cls
                   \<and> (\<exists>(k::ApplicationKey) w' rule_name.
                        setup_source cls api w source_bucket destination_bucket prefix_arg
                            name_arg priority_arg include_existing
                          = Some (bucket_update api w' source_bucket (revision source_bucket)
                              \<lparr>as_replication_source =
                                 Some \<lparr>source_application_key_id = Some (key_id k),
                                       rules = rules src @
                                         [\<lparr>name = rule_name,
                                           priority = get_priority_for_new_rule cls (rules src)
                                             priority_arg,
                                           destination_bucket_id = bucket_id destination_bucket,
                                           file_name_prefix =
                                             (case prefix_arg of None \<Rightarrow> [] | Some p \<Rightarrow> p),
                                           include_existing_files = include_existing\<rparr>]\<rparr>,
                               as_replication_destination =
                                 as_replication_destination cfg\<rparr>)))))"
proof (intro conjI impI)
  assume "(\<forall>r \<in> set R. 1 \<le> priority r \<and> priority r \<le> MAX_PRIORITY cls)
      \<and> 1 \<le> DEFAULT_PRIORITY cls \<and> DEFAULT_PRIORITY cls \<le> MAX_PRIORITY cls"
  then have b: "1 \<le> get_priority_for_new_rule cls R None
         \<and> get_priority_for_new_rule cls R None \<le> MAX_PRIORITY cls"
    by (intro computed_priority_bounds) simp_all
  from b show "1 \<le> get_priority_for_new_rule cls R None" ..
  from b show "get_priority_for_new_rule cls R None \<le> MAX_PRIORITY cls" ..
next
  show "get_priority_for_new_rule cls R (Some p) = p"
    by (simp add: get_priority_for_new_rule_def)
next
  let ?prio = "get_priority_for_new_rule cls (rules src) priority_arg"
  assume c: "replication source_bucket = Some cfg \<and> as_replication_source cfg = Some src"
  from c have c1: "replication source_bucket = Some cfg"
    and c2: "as_replication_source cfg = Some src" by simp_all
  from setup_source_result[OF c1 c2, of api w prefix_arg destination_bucket name_arg cls
      priority_arg include_existing]
  obtain k :: ApplicationKey and w' rule_name where
    s: "setup_source cls api w source_bucket destination_bucket prefix_arg name_arg priority_arg
          include_existing
        = (if bucket_id destination_bucket \<noteq> [] \<and> rule_name_ok cls rule_name
              \<and> 1 \<le> ?prio \<and> ?prio \<le> MAX_PRIORITY cls
           then Some (bucket_update api w' source_bucket (revision source_bucket)
            \<lparr>as_replication_source =
               Some \<lparr>source_application_key_id = Some (key_id k),
                     rules = rules src @
                       [\<lparr>name = rule_name, priority = ?prio,
                         destination_bucket_id = bucket_id destination_bucket,
                         file_name_prefix = (case prefix_arg of None \<Rightarrow> [] | Some p \<Rightarrow> p),
                         include_existing_files = include_existing\<rparr>]\<rparr>,
             as_replication_destination = as_replication_destination cfg\<rparr>)
           else Some (Inl ValueError))"
    by blast
  {
    assume "\<not> (1 \<le> ?prio \<and> ?prio \<le> MAX_PRIORITY cls)"
    with s show "setup_source cls api w source_bucket destination_bucket prefix_arg name_arg
                   priority_arg include_existing = Some (Inl ValueError)"
      by simp
  }
  show "setup_source cls api w source_bucket destination_bucket prefix_arg name_arg
                 priority_arg include_existing = Some (Inl ValueError)
               \<or> (1 \<le> ?prio \<and> ?prio \<le> MAX_PRIORITY cls
                   \<and> (\<exists>(k::ApplicationKey) w' rule_name.
                        setup_source cls api w source_bucket destination_bucket prefix_arg
                            name_arg priority_arg include_existing
                          = Some (bucket_update api w' source_bucket (revision source_bucket)
                              \<lparr>as_replication_source =
                                 Some \<lparr>source_application_key_id = Some (key_id k),
                                       rules = rules src @
                                         [\<lparr>name = rule_name, priority = ?prio,
                                           destination_bucket_id = bucket_id destination_bucket,
                                           file_name_prefix =
                                             (case prefix_arg of None \<Rightarrow> [] | Some p \<Rightarrow> p),
                                           include_existing_files = include_existing\<rparr>]\<rparr>,
                               as_replication_destination =
                                 as_replication_destination cfg\<rparr>)))"
  proof (cases "bucket_id destination_bucket \<noteq> [] \<and> rule_name_ok cls rule_name
              \<and> 1 \<le> ?prio \<and> ?prio \<le> MAX_PRIORITY cls")
    case True
    with s have e: "setup_source cls api w source_bucket destination_bucket prefix_arg
                            name_arg priority_arg include_existing
                          = Some (bucket_update api w' source_bucket (revision source_bucket)
                              \<lparr>as_replication_source =
                                 Some \<lparr>source_application_key_id = Some (key_id k),
                                       rules = rules src @
                                         [\<lparr>name = rule_name, priority = ?prio,
                                           destination_bucket_id = bucket_id destination_bucket,
                                           file_name_prefix =
                                             (case prefix_arg of None \<Rightarrow> [] | Some p \<Rightarrow> p),
                                           include_existing_files = include_existing\<rparr>]\<rparr>,
                               as_replication_destination =
                                 as_replication_destination cfg\<rparr>)"
      by simp
    from True have r: "1 \<le> ?prio" "?prio \<le> MAX_PRIORITY cls" by simp_all
    show ?thesis
      by (rule disjI2, intro conjI r, rule exI[of _ k], rule exI[of _ w'],
          rule exI[of _ rule_name], rule e)
  next
    case False
    with s show ?thesis by simp
  qed
qed

theorem priority_of_new_rule_in_range_witness:
  "1 \<le> priority (sample_rule ''a'' 7)
   \<and> priority (sample_rule ''a'' 7) \<le> MAX_PRIORITY sample_settings
   \<and> 1 \<le> priority (sample_rule ''b'' 3)
   \<and> priority (sample_rule ''b'' 3) \<le> MAX_PRIORITY sample_settings
   \<and> 1 \<le> DEFAULT_PRIORITY sample_settings
   \<and> DEFAULT_PRIORITY sample_settings \<le> MAX_PRIORITY sample_settings
   \<and> get_priority_for_new_rule sample_settings [sample_rule ''a'' 7, sample_rule ''b'' 3] None = 12
   \<and> 1 \<le> get_priority_for_new_rule sample_settings [sample_rule ''a'' 7, sample_rule ''b'' 3] None
   \<and> get_priority_for_new_rule sample_settings [sample_rule ''a'' 7, sample_rule ''b'' 3] None
       \<le> MAX_PRIORITY sample_settings
   \<and> setup_source sample_settings memory_service
        [sample_key ''key-0'' None DEFAULT_SOURCE_CAPABILITIES]
        (sample_bucket ''bucket-id-1'' ''src-1''
          (Some \<lparr>as_replication_source =
                   Some \<lparr>source_application_key_id = Some ''key-0'',
                         rules = [sample_rule ''a'' 7, sample_rule ''b'' 3]\<rparr>,
                 as_replication_destination = None\<rparr>))
        (sample_bucket ''bucket-id-2'' ''dest-1'' None) None (Some ''c'') None False
     = Some (Inr
        (\<lparr>bucket_id = ''bucket-id-1'', bucket_name = ''src-1'', revision = 2,
          replication =
            Some \<lparr>as_replication_source =
                    Some \<lparr>source_application_key_id = Some ''key-0'',
                          rules = [sample_rule ''a'' 7, sample_rule ''b'' 3,
                                   \<lparr>name = ''c'', priority = 12,
                                    destination_bucket_id = ''bucket-id-2'',
                                    file_name_prefix = [],
                                    include_existing_files = False\<rparr>]\<rparr>,
                  as_replication_destination = None\<rparr>\<rparr>,
         [sample_key ''key-0'' None DEFAULT_SOURCE_CAPABILITIES]))
   \<and> get_priority_for_new_rule sample_settings [sample_rule ''a'' 7, sample_rule ''b'' 3] (Some 0)
       = 0
   \<and> setup_source sample_settings memory_service
        [sample_key ''key-0'' None DEFAULT_SOURCE_CAPABILITIES]
        (sample_bucket ''bucket-id-1'' ''src-1''
          (Some \<lparr>as_replication_source =
                   Some \<lparr>source_application_key_id = Some ''key-0'',
                         rules = [sample_rule ''a'' 7, sample_rule ''b'' 3]\<rparr>,
                 as_replication_destination = None\<rparr>))
        (sample_bucket ''bucket-id-2'' ''dest-1'' None) None (Some ''c'') (Some 0) False
     = Some (Inl ValueError)"
proof -
  let ?R = "[sample_rule ''a'' 7, sample_rule ''b'' 3]"
  let ?src = "\<lparr>source_application_key_id = Some ''key-0'', rules = ?R\<rparr>"
  let ?cfg = "\<lparr>as_replication_source = Some ?src, as_replication_destination = None\<rparr>"
  let ?b = "sample_bucket ''bucket-id-1'' ''src-1'' (Some ?cfg)"
  let ?d = "sample_bucket ''bucket-id-2'' ''dest-1'' None"
  let ?ks = "[sample_key ''key-0'' None DEFAULT_SOURCE_CAPABILITIES]"
  note t = priority_of_new_rule_in_range[where R = ?R and cls = sample_settings and p = 0
      and source_bucket = ?b and cfg = ?cfg and src = ?src and priority_arg = "Some 0"
      and api = memory_service and w = ?ks and destination_bucket = ?d
      and prefix_arg = None and name_arg = "Some ''c''" and include_existing = False]
  have p: "1 \<le> priority (sample_rule ''a'' 7)"
    "priority (sample_rule ''a'' 7) \<le> MAX_PRIORITY sample_settings"
    "1 \<le> priority (sample_rule ''b'' 3)"
    "priority (sample_rule ''b'' 3) \<le> MAX_PRIORITY sample_settings"
    "1 \<le> DEFAULT_PRIORITY sample_settings"
    "DEFAULT_PRIORITY sample_settings \<le> MAX_PRIORITY sample_settings"
    by (simp_all add: sample_rule_def sample_settings_def)
  have h: "(\<forall>r \<in> set ?R. 1 \<le> priority r \<and> priority r \<le> MAX_PRIORITY sample_settings)
      \<and> 1 \<le> DEFAULT_PRIORITY sample_settings
      \<and> DEFAULT_PRIORITY sample_settings \<le> MAX_PRIORITY sample_settings"
    using p by simp
  have b: "1 \<le> get_priority_for_new_rule sample_settings ?R None
        \<and> get_priority_for_new_rule sample_settings ?R None \<le> MAX_PRIORITY sample_settings"
    by (rule mp[OF conjunct1[OF t] h])
  have v: "get_priority_for_new_rule sample_settings ?R None = 12"
    by (simp add: get_priority_for_new_rule_def sample_rule_def sample_settings_def
        PRIORITY_OFFSET_def)
  have x: "get_priority_for_new_rule sample_settings ?R (Some 0) = 0"
    by (rule conjunct1[OF conjunct2[OF t]])
  have c: "replication ?b = Some ?cfg \<and> as_replication_source ?cfg = Some ?src"
    by (simp add: sample_bucket_def)
  have nr: "\<not> (1 \<le> get_priority_for_new_rule sample_settings (rules ?src) (Some 0)
        \<and> get_priority_for_new_rule sample_settings (rules ?src) (Some 0)
            \<le> MAX_PRIORITY sample_settings)"
    by (simp add: get_priority_for_new_rule_def)
  have e: "setup_source sample_settings memory_service ?ks ?b ?d None (Some ''c'') (Some 0) False
      = Some (Inl ValueError)"
    by (rule mp[OF conjunct1[OF mp[OF conjunct2[OF conjunct2[OF t]] c]] nr])
  have s: "setup_source sample_settings memory_service ?ks ?b ?d None (Some ''c'') None False
     = Some (Inr
        (\<lparr>bucket_id = ''bucket-id-1'', bucket_name = ''src-1'', revision = 2,
          replication =
            Some \<lparr>as_replication_source =
                    Some \<lparr>source_application_key_id = Some ''key-0'',
                          rules = [sample_rule ''a'' 7, sample_rule ''b'' 3,
                                   \<lparr>name = ''c'', priority = 12,
                                    destination_bucket_id = ''bucket-id-2'',
                                    file_name_prefix = [],
                                    include_existing_files = False\<rparr>]\<rparr>,
                  as_replication_destination = None\<rparr>\<rparr>,
         ?ks))"
    by (simp add: setup_source_def get_source_key_def should_make_new_source_key_def
        configured_source_key_id_def get_priority_for_new_rule_def PRIORITY_OFFSET_def
        get_new_rule_name_def new_ReplicationRule_def memory_defs sample_rule_name_ok_def
        helper_defs Let_def)
  from p v conjunct1[OF b] conjunct2[OF b] s x e show ?thesis
    by (intro conjI) assumption+
qed

subsection \<open>The source key\<close>

text \<open>Claim C1: on a source bucket whose replication configuration is \<^verbatim>\<open>None\<close>, the two
  \<^verbatim>\<open>try\<close> blocks of \<^verbatim>\<open>setup_source\<close> yield the empty rule list and no destination
  configuration, but \<^verbatim>\<open>_get_source_key\<close> then reads
  \<^verbatim>\<open>current_replication_configuration.as_replication_source\<close> on that \<^verbatim>\<open>None\<close> outside any
  \<^verbatim>\<open>try\<close>: the call ends with \<^verbatim>\<open>AttributeError\<close>, whatever the service and the other
  arguments are, and no key is created and nothing is submitted.\<close>

theorem setup_source_without_replication_raises:
  "setup_source cls api w (source_bucket\<lparr>replication := None\<rparr>) destination_bucket
      prefix_arg name_arg priority_arg include_existing = Some (Inl AttributeError)"
  by (simp add: setup_source_def get_source_key_def configured_source_key_id_def)

text \<open>On a replication configuration without a source side (a bucket that is only a
  replication destination), reading the configured source key id raises \<^verbatim>\<open>AttributeError\<close>:
  \<^verbatim>\<open>_get_source_key\<close> does so before it looks the key up or asks whether one has to be made,
  and so \<^verbatim>\<open>setup_source\<close> ends the same way as on a bucket without any configuration.\<close>

lemma source_side_missing_raises:
  "should_make_new_source_key
      (Some \<lparr>as_replication_source = None, as_replication_destination = d\<rparr>) current_source_key
     = Inl AttributeError
   \<and> get_source_key api w source_bucket prefix
      (Some \<lparr>as_replication_source = None, as_replication_destination = d\<rparr>) current_source_rules
     = Inl AttributeError
   \<and> setup_source cls api w
      (source_bucket\<lparr>replication :=
         Some \<lparr>as_replication_source = None, as_replication_destination = d\<rparr>\<rparr>)
      destination_bucket prefix_arg name_arg priority_arg include_existing
     = Some (Inl AttributeError)"
  by (simp add: should_make_new_source_key_def get_source_key_def configured_source_key_id_def
      setup_source_def)

text \<open>Claim C4: \<^verbatim>\<open>_should_make_new_source_key\<close> is only called by \<^verbatim>\<open>_get_source_key\<close>, after the
  source side of the configuration has been read, so the configurations it receives have
  one. On each of them, and for every optional current key, it answers true exactly when no
  source key id is set, or the key is \<^verbatim>\<open>None\<close>, or the key has a non-empty name prefix, or
  the key lacks one of \<open>DEFAULT_SOURCE_CAPABILITIES\<close>. In particular, when the configured id
  resolves to a key without name prefix that has all of \<open>DEFAULT_SOURCE_CAPABILITIES\<close>,
  \<^verbatim>\<open>_get_source_key\<close> returns that key and leaves the service as it is.\<close>

theorem should_make_new_source_key_iff:
  assumes "as_replication_source cfg = Some src"
  shows "should_make_new_source_key (Some cfg) current_source_key
       = Inr (source_application_key_id src = None
              \<or> current_source_key = None
              \<or> (\<exists>k. current_source_key = Some k
                   \<and> (truthy (name_prefix k)
                        \<or> \<not> has_capabilities k DEFAULT_SOURCE_CAPABILITIES)))
     \<and> (source_application_key_id src = Some i \<and> api_get_key api w (Some i) = Some key
          \<and> \<not> truthy (name_prefix key) \<and> has_capabilities key DEFAULT_SOURCE_CAPABILITIES
        \<longrightarrow> get_source_key api w source_bucket prefix (Some cfg) current_source_rules
              = Inr (Some key, w))"
proof (intro conjI impI)
  show "should_make_new_source_key (Some cfg) current_source_key
       = Inr (source_application_key_id src = None
              \<or> current_source_key = None
              \<or> (\<exists>k. current_source_key = Some k
                   \<and> (truthy (name_prefix k)
                        \<or> \<not> has_capabilities k DEFAULT_SOURCE_CAPABILITIES)))"
    by (rule should_make_new_source_key_decision[OF assms])
next
  assume a: "source_application_key_id src = Some i \<and> api_get_key api w (Some i) = Some key
          \<and> \<not> truthy (name_prefix key) \<and> has_capabilities key DEFAULT_SOURCE_CAPABILITIES"
  have c: "configured_source_key_id (Some cfg) = Inr (Some i)"
    using assms a by (simp add: configured_source_key_id_def)
  have "should_make_new_source_key (Some cfg) (api_get_key api w (Some i)) = Inr False"
    using a should_make_new_source_key_decision[OF assms, of "api_get_key api w (Some i)"]
    by simp
  from get_source_key_reuses[OF c this, of source_bucket prefix current_source_rules] a
  show "get_source_key api w source_bucket prefix (Some cfg) current_source_rules
              = Inr (Some key, w)"
    by simp
qed

theorem should_make_new_source_key_iff_witness:
  "as_replication_source
      \<lparr>as_replication_source = Some \<lparr>source_application_key_id = Some ''key-0'', rules = []\<rparr>,
       as_replication_destination = None\<rparr>
     = Some \<lparr>source_application_key_id = Some ''key-0'', rules = []\<rparr>
   \<and> api_get_key memory_service
        [sample_key ''key-0'' None (''listFiles'' # DEFAULT_SOURCE_CAPABILITIES)] (Some ''key-0'')
      = Some (sample_key ''key-0'' None (''listFiles'' # DEFAULT_SOURCE_CAPABILITIES))
   \<and> should_make_new_source_key
        (Some \<lparr>as_replication_source =
                 Some \<lparr>source_application_key_id = Some ''key-0'', rules = []\<rparr>,
               as_replication_destination = None\<rparr>)
        (Some (sample_key ''key-0'' None (''listFiles'' # DEFAULT_SOURCE_CAPABILITIES)))
      = Inr False
   \<and> get_source_key memory_service
        [sample_key ''key-0'' None (''listFiles'' # DEFAULT_SOURCE_CAPABILITIES)]
        (sample_bucket ''bucket-id-1'' ''src-1'' None) ''docs/''
        (Some \<lparr>as_replication_source =
                 Some \<lparr>source_application_key_id = Some ''key-0'', rules = []\<rparr>,
               as_replication_destination = None\<rparr>) []
      = Inr (Some (sample_key ''key-0'' None (''listFiles'' # DEFAULT_SOURCE_CAPABILITIES)),
             [sample_key ''key-0'' None (''listFiles'' # DEFAULT_SOURCE_CAPABILITIES)])
   \<and> should_make_new_source_key
        (Some \<lparr>as_replication_source =
                 Some \<lparr>source_application_key_id = Some ''key-0'', rules = []\<rparr>,
               as_replication_destination = None\<rparr>)
        (Some (sample_key ''key-0'' None [''readFiles'', ''readFileRetentions'']))
      = Inr True"
proof -
  let ?src = "\<lparr>source_application_key_id = Some ''key-0'', rules = []\<rparr>"
  let ?cfg = "\<lparr>as_replication_source = Some ?src, as_replication_destination = None\<rparr>"
  let ?k = "sample_key ''key-0'' None (''listFiles'' # DEFAULT_SOURCE_CAPABILITIES)"
  let ?k2 = "sample_key ''key-0'' None [''readFiles'', ''readFileRetentions'']"
  have h: "as_replication_source ?cfg = Some ?src" by simp
  have g: "api_get_key memory_service [?k] (Some ''key-0'') = Some ?k"
    by (simp add: memory_defs)
  have p: "source_application_key_id ?src = Some ''key-0''
      \<and> api_get_key memory_service [?k] (Some ''key-0'') = Some ?k
      \<and> \<not> truthy (name_prefix ?k) \<and> has_capabilities ?k DEFAULT_SOURCE_CAPABILITIES"
    by (simp add: memory_defs helper_defs)
  note t = should_make_new_source_key_iff[OF h, of "Some ?k" "''key-0''" memory_service "[?k]" ?k
      "sample_bucket ''bucket-id-1'' ''src-1'' None" "''docs/''" "[]"]
  have d: "should_make_new_source_key (Some ?cfg) (Some ?k) = Inr False"
    using t by (simp add: memory_defs helper_defs)
  have r: "get_source_key memory_service [?k]
        (sample_bucket ''bucket-id-1'' ''src-1'' None) ''docs/'' (Some ?cfg) []
      = Inr (Some ?k, [?k])"
    using conjunct2[OF t] p by simp
  have d2: "should_make_new_source_key (Some ?cfg) (Some ?k2) = Inr True"
    using should_make_new_source_key_iff[OF h, of "Some ?k2" "''key-0''" memory_service "[?k]" ?k
      "sample_bucket ''bucket-id-1'' ''src-1'' None" "''docs/''" "[]"]
    by (simp add: memory_defs helper_defs)
  from h g d r d2 show ?thesis by (intro conjI) assumption+
qed

text \<open>Claim C5: whenever \<^verbatim>\<open>_get_source_key\<close> decides to create a key, the result is the key
  that the service creates for the request with the name \<^verbatim>\<open><bucket_name[:91]>-replisrc\<close>,
  the capabilities \<open>DEFAULT_SOURCE_CAPABILITIES\<close> and no name prefix, whatever prefix the
  caller gave; and a current key with a non-empty name prefix always leads to that
  decision, whatever its capabilities are.\<close>

theorem get_source_key_creates_unrestricted_key:
  "(configured_source_key_id cfg = Inr i
      \<and> should_make_new_source_key cfg (api_get_key api w i) = Inr True
    \<longrightarrow> get_source_key api w source_bucket prefix cfg current_source_rules
        = (let (new_key, w') =
                 api_create_key api w
                   \<lparr>req_capabilities = DEFAULT_SOURCE_CAPABILITIES,
                    req_key_name = take 91 (bucket_name source_bucket) @ ''-replisrc'',
                    req_bucket_id = bucket_id source_bucket, req_name_prefix = None\<rparr>
           in Inr (Some new_key, w')))
   \<and> (configured_source_key_id cfg = Inr i \<and> api_get_key api w i = Some k
        \<and> truthy (name_prefix k)
      \<longrightarrow> should_make_new_source_key cfg (api_get_key api w i) = Inr True)"
proof -
  have "should_make_new_source_key cfg (api_get_key api w i) = Inr True"
    if "configured_source_key_id cfg = Inr i" "api_get_key api w i = Some k"
      "truthy (name_prefix k)"
    using that by (simp add: should_make_new_source_key_def split: option.splits)
  then show ?thesis
    using get_source_key_creates[of cfg i api w source_bucket prefix current_source_rules]
    by simp
qed

theorem get_source_key_creates_unrestricted_key_witness:
  "configured_source_key_id
      (Some \<lparr>as_replication_source =
               Some \<lparr>source_application_key_id = Some ''key-0'', rules = []\<rparr>,
             as_replication_destination = None\<rparr>) = Inr (Some ''key-0'')
   \<and> api_get_key memory_service
        [sample_key ''key-0'' (Some ''photos/'') DEFAULT_SOURCE_CAPABILITIES] (Some ''key-0'')
      = Some (sample_key ''key-0'' (Some ''photos/'') DEFAULT_SOURCE_CAPABILITIES)
   \<and> truthy (name_prefix (sample_key ''key-0'' (Some ''photos/'') DEFAULT_SOURCE_CAPABILITIES))
   \<and> has_capabilities (sample_key ''key-0'' (Some ''photos/'') DEFAULT_SOURCE_CAPABILITIES)
        DEFAULT_SOURCE_CAPABILITIES
   \<and> get_source_key memory_service
        [sample_key ''key-0'' (Some ''photos/'') DEFAULT_SOURCE_CAPABILITIES]
        (sample_bucket ''bucket-id-1'' ''src-1'' None) ''docs/''
        (Some \<lparr>as_replication_source =
                 Some \<lparr>source_application_key_id = Some ''key-0'', rules = []\<rparr>,
               as_replication_destination = None\<rparr>) []
      = Inr (Some \<lparr>key_id = ''key-1'', key_name = ''src-1-replisrc'', name_prefix = None,
                    capabilities = DEFAULT_SOURCE_CAPABILITIES\<rparr>,
             [sample_key ''key-0'' (Some ''photos/'') DEFAULT_SOURCE_CAPABILITIES,
              \<lparr>key_id = ''key-1'', key_name = ''src-1-replisrc'', name_prefix = None,
               capabilities = DEFAULT_SOURCE_CAPABILITIES\<rparr>])"
proof -
  let ?cfg = "Some \<lparr>as_replication_source =
                 Some \<lparr>source_application_key_id = Some ''key-0'', rules = []\<rparr>,
               as_replication_destination = None\<rparr>"
  let ?k = "sample_key ''key-0'' (Some ''photos/'') DEFAULT_SOURCE_CAPABILITIES"
  have h: "configured_source_key_id ?cfg = Inr (Some ''key-0'')"
    "api_get_key memory_service [?k] (Some ''key-0'') = Some ?k"
    "truthy (name_prefix ?k)" "has_capabilities ?k DEFAULT_SOURCE_CAPABILITIES"
    by (simp_all add: configured_source_key_id_def memory_defs helper_defs)
  have v: "get_source_key memory_service [?k]
        (sample_bucket ''bucket-id-1'' ''src-1'' None) ''docs/'' ?cfg []
      = Inr (Some \<lparr>key_id = ''key-1'', key_name = ''src-1-replisrc'', name_prefix = None,
                    capabilities = DEFAULT_SOURCE_CAPABILITIES\<rparr>,
             [?k, \<lparr>key_id = ''key-1'', key_name = ''src-1-replisrc'', name_prefix = None,
               capabilities = DEFAULT_SOURCE_CAPABILITIES\<rparr>])"
    using get_source_key_creates_unrestricted_key
      [of ?cfg "Some ''key-0''" memory_service "[?k]"
        "sample_bucket ''bucket-id-1'' ''src-1'' None" "''docs/''" "[]" ?k] h
    by (simp add: memory_defs str_small Let_def)
  from h v show ?thesis by (intro conjI) assumption+
qed

subsection \<open>The destination key\<close>

text \<open>Claim C6: \<^verbatim>\<open>_get_destination_key\<close> returns as stale the mapped key ids that
  \<^verbatim>\<open>get_key\<close> does not resolve, in the order of the mapping; the key is the last resolved key
  of the mapping that has all of \<open>DEFAULT_DESTINATION_CAPABILITIES\<close> and no name prefix, and
  the service is left as it is; when there is no such key, the key is the one the service
  creates for the request with the name \<^verbatim>\<open><bucket_name[:91]>-replidst\<close>, the capabilities
  \<open>DEFAULT_DESTINATION_CAPABILITIES\<close> and no name prefix.\<close>

theorem get_destination_key_result:
  "get_destination_key api w destination_bucket destination_configuration
     = (let ids = map snd (source_to_destination_key_mapping destination_configuration);
            stale = filter (\<lambda>i. api_get_key api w (Some i) = None) ids;
            matching =
              filter (\<lambda>k. has_capabilities k DEFAULT_DESTINATION_CAPABILITIES
                           \<and> \<not> truthy (name_prefix k))
                (List.map_filter (\<lambda>i. api_get_key api w (Some i)) ids)
        in if matching = []
           then (let (new_key, w') =
                       api_create_key api w
                         \<lparr>req_capabilities = DEFAULT_DESTINATION_CAPABILITIES,
                          req_key_name = take 91 (bucket_name destination_bucket) @ ''-replidst'',
                          req_bucket_id = bucket_id destination_bucket,
                          req_name_prefix = None\<rparr>
                 in ((stale, new_key), w'))
           else ((stale, last matching), w))"
  by (simp add: get_destination_key_def destination_key_scan_eq Let_def
      create_destination_key_def create_key_def split: prod.splits)

theorem get_destination_key_result_witness:
  "get_destination_key memory_service
      [sample_key ''key-0'' None DEFAULT_DESTINATION_CAPABILITIES,
       sample_key ''key-1'' None (''listFiles'' # DEFAULT_DESTINATION_CAPABILITIES),
       sample_key ''key-2'' (Some ''p/'') DEFAULT_DESTINATION_CAPABILITIES]
      (sample_bucket ''bucket-id-2'' ''dest-1'' None)
      \<lparr>source_to_destination_key_mapping =
         [(''s-a'', ''key-0''), (''s-b'', ''gone''), (''s-c'', ''key-1''), (''s-d'', ''key-2'')]\<rparr>
     = (([''gone''], sample_key ''key-1'' None (''listFiles'' # DEFAULT_DESTINATION_CAPABILITIES)),
        [sample_key ''key-0'' None DEFAULT_DESTINATION_CAPABILITIES,
         sample_key ''key-1'' None (''listFiles'' # DEFAULT_DESTINATION_CAPABILITIES),
         sample_key ''key-2'' (Some ''p/'') DEFAULT_DESTINATION_CAPABILITIES])
   \<and> get_destination_key memory_service []
      (sample_bucket ''bucket-id-2'' ''dest-1'' None)
      \<lparr>source_to_destination_key_mapping = [(''s-b'', ''gone'')]\<rparr>
     = (([''gone''],
         \<lparr>key_id = ''key-0'', key_name = ''dest-1-replidst'', name_prefix = None,
          capabilities = DEFAULT_DESTINATION_CAPABILITIES\<rparr>),
        [\<lparr>key_id = ''key-0'', key_name = ''dest-1-replidst'', name_prefix = None,
          capabilities = DEFAULT_DESTINATION_CAPABILITIES\<rparr>])"
  using get_destination_key_result
    [of memory_service
      "[sample_key ''key-0'' None DEFAULT_DESTINATION_CAPABILITIES,
       sample_key ''key-1'' None (''listFiles'' # DEFAULT_DESTINATION_CAPABILITIES),
       sample_key ''key-2'' (Some ''p/'') DEFAULT_DESTINATION_CAPABILITIES]"
      "sample_bucket ''bucket-id-2'' ''dest-1'' None"
      "\<lparr>source_to_destination_key_mapping =
         [(''s-a'', ''key-0''), (''s-b'', ''gone''), (''s-c'', ''key-1''), (''s-d'', ''key-2'')]\<rparr>"]
    get_destination_key_result
    [of memory_service "[]" "sample_bucket ''bucket-id-2'' ''dest-1'' None"
      "\<lparr>source_to_destination_key_mapping = [(''s-b'', ''gone'')]\<rparr>"]
  by (simp add: memory_defs helper_defs str_small List.map_filter_simps Let_def)

subsection \<open>The submitted configurations\<close>

text \<open>Claim C8: on a source bucket with a source side whose rules are \<open>R\<close>, \<^verbatim>\<open>setup_source\<close>
  either ends with the \<^verbatim>\<open>ValueError\<close> of the rule's constructor, submitting nothing, or
  submits, under the bucket's revision, a configuration whose rule list is \<open>R\<close> followed by
  exactly one new rule and whose destination side is the bucket's own; which of the two
  is decided by the constructor's test of the new rule.\<close>

theorem setup_source_appends_one_rule:
  assumes "replication source_bucket = Some cfg" and "as_replication_source cfg = Some src"
  shows "\<exists>(k::ApplicationKey) w' rule_name.
      get_new_rule_name (rules src) destination_bucket name_arg = Some rule_name
      \<and> setup_source cls api w source_bucket destination_bucket prefix_arg name_arg priority_arg
          include_existing
        = (if bucket_id destination_bucket \<noteq> [] \<and> rule_name_ok cls rule_name
              \<and> 1 \<le> get_priority_for_new_rule cls (rules src) priority_arg
              \<and> get_priority_for_new_rule cls (rules src) priority_arg \<le> MAX_PRIORITY cls
           then Some (bucket_update api w' source_bucket (revision source_bucket)
            \<lparr>as_replication_source =
               Some \<lparr>source_application_key_id = Some (key_id k),
                     rules = rules src @
                       [\<lparr>name = rule_name,
                         priority = get_priority_for_new_rule cls (rules src) priority_arg,
                         destination_bucket_id = bucket_id destination_bucket,
                         file_name_prefix = (case prefix_arg of None \<Rightarrow> [] | Some p \<Rightarrow> p),
                         include_existing_files = include_existing\<rparr>]\<rparr>,
             as_replication_destination = as_replication_destination cfg\<rparr>)
           else Some (Inl ValueError))"
  using setup_source_result[OF assms, of api w prefix_arg destination_bucket name_arg cls
      priority_arg include_existing]
  by blast

theorem setup_source_appends_one_rule_witness:
  "replication (sample_bucket ''bucket-id-1'' ''src-1''
      (Some \<lparr>as_replication_source =
               Some \<lparr>source_application_key_id = Some ''key-0'',
                     rules = [sample_rule ''dest-1'' 128]\<rparr>,
             as_replication_destination =
               Some \<lparr>source_to_destination_key_mapping = [(''s-a'', ''key-9'')]\<rparr>\<rparr>))
     = Some \<lparr>as_replication_source =
               Some \<lparr>source_application_key_id = Some ''key-0'',
                     rules = [sample_rule ''dest-1'' 128]\<rparr>,
             as_replication_destination =
               Some \<lparr>source_to_destination_key_mapping = [(''s-a'', ''key-9'')]\<rparr>\<rparr>
   \<and> setup_source sample_settings memory_service
        [sample_key ''key-0'' None DEFAULT_SOURCE_CAPABILITIES]
        (sample_bucket ''bucket-id-1'' ''src-1''
          (Some \<lparr>as_replication_source =
                   Some \<lparr>source_application_key_id = Some ''key-0'',
                         rules = [sample_rule ''dest-1'' 128]\<rparr>,
                 as_replication_destination =
                   Some \<lparr>source_to_destination_key_mapping = [(''s-a'', ''key-9'')]\<rparr>\<rparr>))
        (sample_bucket ''bucket-id-2'' ''dest-1'' None) None None None False
     = Some (Inr
        (\<lparr>bucket_id = ''bucket-id-1'', bucket_name = ''src-1'', revision = 2,
          replication =
            Some \<lparr>as_replication_source =
                    Some \<lparr>source_application_key_id = Some ''key-0'',
                          rules = [sample_rule ''dest-1'' 128,
                                   \<lparr>name = ''dest-12'', priority = 133,
                                    destination_bucket_id = ''bucket-id-2'',
                                    file_name_prefix = [],
                                    include_existing_files = False\<rparr>]\<rparr>,
                  as_replication_destination =
                    Some \<lparr>source_to_destination_key_mapping = [(''s-a'', ''key-9'')]\<rparr>\<rparr>\<rparr>,
         [sample_key ''key-0'' None DEFAULT_SOURCE_CAPABILITIES]))
   \<and> setup_source sample_settings memory_service
        [sample_key ''key-0'' None DEFAULT_SOURCE_CAPABILITIES]
        (sample_bucket ''bucket-id-1'' ''src-1''
          (Some \<lparr>as_replication_source =
                   Some \<lparr>source_application_key_id = Some ''key-0'',
                         rules = [sample_rule ''dest-1'' 128]\<rparr>,
                 as_replication_destination =
                   Some \<lparr>source_to_destination_key_mapping = [(''s-a'', ''key-9'')]\<rparr>\<rparr>))
        (sample_bucket ''bucket-id-2'' ''dest-1'' None) None (Some ''my rule'') (Some 0) False
     = Some (Inl ValueError)"
proof -
  let ?src = "\<lparr>source_application_key_id = Some ''key-0'',
                     rules = [sample_rule ''dest-1'' 128]\<rparr>"
  let ?cfg = "\<lparr>as_replication_source = Some ?src,
             as_replication_destination =
               Some \<lparr>source_to_destination_key_mapping = [(''s-a'', ''key-9'')]\<rparr>\<rparr>"
  let ?b = "sample_bucket ''bucket-id-1'' ''src-1'' (Some ?cfg)"
  let ?d = "sample_bucket ''bucket-id-2'' ''dest-1'' None"
  let ?ks = "[sample_key ''key-0'' None DEFAULT_SOURCE_CAPABILITIES]"
  have h: "replication ?b = Some ?cfg" "as_replication_source ?cfg = Some ?src"
    by (simp_all add: sample_bucket_def)
  have n: "get_new_rule_name [sample_rule ''dest-1'' 128] ?d None = Some ''dest-12''"
    using loop_reaches[of "''dest-1''" 1 "[''dest-1'']" 0]
    by (simp add: get_new_rule_name_def sample_rule_def sample_bucket_def str_small)
  have v: "setup_source sample_settings memory_service ?ks ?b ?d None None None False
     = Some (Inr
        (\<lparr>bucket_id = ''bucket-id-1'', bucket_name = ''src-1'', revision = 2,
          replication =
            Some \<lparr>as_replication_source =
                    Some \<lparr>source_application_key_id = Some ''key-0'',
                          rules = [sample_rule ''dest-1'' 128,
                                   \<lparr>name = ''dest-12'', priority = 133,
                                    destination_bucket_id = ''bucket-id-2'',
                                    file_name_prefix = [],
                                    include_existing_files = False\<rparr>]\<rparr>,
                  as_replication_destination =
                    Some \<lparr>source_to_destination_key_mapping = [(''s-a'', ''key-9'')]\<rparr>\<rparr>\<rparr>,
         ?ks))"
    by (simp add: setup_source_def get_source_key_def should_make_new_source_key_def
        configured_source_key_id_def get_priority_for_new_rule_def PRIORITY_OFFSET_def
        new_ReplicationRule_def n[unfolded sample_rule_def sample_bucket_def]
        memory_defs sample_rule_name_ok_def helper_defs Let_def)
  have e: "setup_source sample_settings memory_service ?ks ?b ?d None (Some ''my rule'') (Some 0)
      False = Some (Inl ValueError)"
    by (simp add: setup_source_def get_source_key_def should_make_new_source_key_def
        configured_source_key_id_def get_priority_for_new_rule_def get_new_rule_name_def
        new_ReplicationRule_def memory_defs sample_rule_name_ok_def helper_defs Let_def)
  from setup_source_appends_one_rule[OF h, of ?d None sample_settings memory_service ?ks
      None None False] h(1) v e
  show ?thesis by (intro conjI) assumption+
qed

text \<open>Claim C9: \<^verbatim>\<open>setup_destination\<close> submits, under the bucket's revision, the bucket's own
  source side and the old mapping with the entry for \<^verbatim>\<open>source_key_id\<close> set to the id of the
  resolved destination key: the new mapping agrees with the old one on every other source
  key id, every other entry stays where it was, and the entries of stale key ids stay
  too.\<close>

theorem setup_destination_updates_one_entry:
  "let old = (case replication destination_bucket of
                None \<Rightarrow> []
              | Some c \<Rightarrow> (case as_replication_destination c of
                             None \<Rightarrow> []
                           | Some d \<Rightarrow> source_to_destination_key_mapping d));
       ((stale, destination_key), w') =
          get_destination_key api w destination_bucket
            \<lparr>source_to_destination_key_mapping = old\<rparr>;
       new = dict_setitem old source_key_id (key_id destination_key)
   in (\<exists>b'. b'\<lparr>replication := replication destination_bucket\<rparr> = destination_bucket
         \<and> setup_destination api w source_key_id destination_bucket
            = bucket_update api w' b' (revision destination_bucket)
                \<lparr>as_replication_source =
                   (case replication destination_bucket of
                      None \<Rightarrow> None
                    | Some c \<Rightarrow> as_replication_source c),
                 as_replication_destination =
                   Some \<lparr>source_to_destination_key_mapping = new\<rparr>\<rparr>)
      \<and> map_of new = (map_of old)(source_key_id \<mapsto> key_id destination_key)
      \<and> filter (\<lambda>e. fst e \<noteq> source_key_id) new = filter (\<lambda>e. fst e \<noteq> source_key_id) old
      \<and> (\<forall>(s, d) \<in> set old. s \<noteq> source_key_id \<and> d \<in> set stale \<longrightarrow> (s, d) \<in> set new)"
proof -
  have "\<exists>b'. b'\<lparr>replication := replication destination_bucket\<rparr> = destination_bucket
         \<and> setup_destination api w source_key_id destination_bucket
            = bucket_update api w' b' (revision destination_bucket)
                \<lparr>as_replication_source =
                   (case replication destination_bucket of
                      None \<Rightarrow> None
                    | Some c \<Rightarrow> as_replication_source c),
                 as_replication_destination =
                   Some \<lparr>source_to_destination_key_mapping =
                     dict_setitem old source_key_id (key_id destination_key)\<rparr>\<rparr>"
    if "old = (case replication destination_bucket of
                None \<Rightarrow> []
              | Some c \<Rightarrow> (case as_replication_destination c of
                             None \<Rightarrow> []
                           | Some d \<Rightarrow> source_to_destination_key_mapping d))"
      and "get_destination_key api w destination_bucket
            \<lparr>source_to_destination_key_mapping = old\<rparr> = ((stale, destination_key), w')"
    for old stale destination_key w'
  proof (cases "replication destination_bucket")
    case None
    with that show ?thesis
      by (intro exI[of _ destination_bucket]) (simp add: setup_destination_def)
  next
    case (Some c)
    show ?thesis
    proof (cases "as_replication_destination c")
      case None
      with Some that show ?thesis
        by (intro exI[of _ destination_bucket]) (simp add: setup_destination_def)
    next
      case (Some d)
      have d1: "\<lparr>source_to_destination_key_mapping = source_to_destination_key_mapping d\<rparr> = d"
        and d2: "\<And>x. d\<lparr>source_to_destination_key_mapping := x\<rparr>
               = \<lparr>source_to_destination_key_mapping = x\<rparr>"
        by simp_all
      from Some \<open>replication destination_bucket = Some c\<close> that show ?thesis
        by (intro exI[of _ "destination_bucket
              \<lparr>replication := Some (c\<lparr>as_replication_destination :=
                  Some (d\<lparr>source_to_destination_key_mapping :=
                     dict_setitem old source_key_id (key_id destination_key)\<rparr>)\<rparr>)\<rparr>"])
          (simp add: setup_destination_def Let_def d1 d2)
    qed
  qed
  then show ?thesis
    by (auto simp add: Let_def dict_setitem_map_of dict_setitem_others dict_setitem_keeps
        split: prod.splits)
qed

theorem setup_destination_updates_one_entry_witness:
  "get_destination_key memory_service
      [sample_key ''key-0'' None DEFAULT_DESTINATION_CAPABILITIES]
      (sample_bucket ''bucket-id-2'' ''dest-1''
        (Some \<lparr>as_replication_source = None,
               as_replication_destination =
                 Some \<lparr>source_to_destination_key_mapping =
                        [(''s-a'', ''gone''), (''s-b'', ''key-0'')]\<rparr>\<rparr>))
      \<lparr>source_to_destination_key_mapping = [(''s-a'', ''gone''), (''s-b'', ''key-0'')]\<rparr>
     = (([''gone''], sample_key ''key-0'' None DEFAULT_DESTINATION_CAPABILITIES),
        [sample_key ''key-0'' None DEFAULT_DESTINATION_CAPABILITIES])
   \<and> setup_destination memory_service [sample_key ''key-0'' None DEFAULT_DESTINATION_CAPABILITIES]
      ''s-c''
      (sample_bucket ''bucket-id-2'' ''dest-1''
        (Some \<lparr>as_replication_source = None,
               as_replication_destination =
                 Some \<lparr>source_to_destination_key_mapping =
                        [(''s-a'', ''gone''), (''s-b'', ''key-0'')]\<rparr>\<rparr>))
     = Inr (\<lparr>bucket_id = ''bucket-id-2'', bucket_name = ''dest-1'', revision = 2,
             replication =
               Some \<lparr>as_replication_source = None,
                     as_replication_destination =
                       Some \<lparr>source_to_destination_key_mapping =
                              [(''s-a'', ''gone''), (''s-b'', ''key-0''), (''s-c'', ''key-0'')]\<rparr>\<rparr>\<rparr>,
            [sample_key ''key-0'' None DEFAULT_DESTINATION_CAPABILITIES])
   \<and> (''s-a'', ''gone'') \<in> set (dict_setitem [(''s-a'', ''gone''), (''s-b'', ''key-0'')] ''s-c'' ''key-0'')
   \<and> map_of (dict_setitem [(''s-a'', ''gone''), (''s-b'', ''key-0'')] ''s-c'' ''key-0'')
       = (map_of [(''s-a'', ''gone''), (''s-b'', ''key-0'')])(''s-c'' \<mapsto> ''key-0'')"
proof -
  let ?ks = "[sample_key ''key-0'' None DEFAULT_DESTINATION_CAPABILITIES]"
  let ?b = "sample_bucket ''bucket-id-2'' ''dest-1''
        (Some \<lparr>as_replication_source = None,
               as_replication_destination =
                 Some \<lparr>source_to_destination_key_mapping =
                        [(''s-a'', ''gone''), (''s-b'', ''key-0'')]\<rparr>\<rparr>)"
  have g: "get_destination_key memory_service ?ks ?b
      \<lparr>source_to_destination_key_mapping = [(''s-a'', ''gone''), (''s-b'', ''key-0'')]\<rparr>
     = (([''gone''], sample_key ''key-0'' None DEFAULT_DESTINATION_CAPABILITIES), ?ks)"
    by (simp add: get_destination_key_def create_destination_key_def create_key_def
        memory_defs helper_defs Let_def)
  have v: "setup_destination memory_service ?ks ''s-c'' ?b
     = Inr (\<lparr>bucket_id = ''bucket-id-2'', bucket_name = ''dest-1'', revision = 2,
             replication =
               Some \<lparr>as_replication_source = None,
                     as_replication_destination =
                       Some \<lparr>source_to_destination_key_mapping =
                              [(''s-a'', ''gone''), (''s-b'', ''key-0''), (''s-c'', ''key-0'')]\<rparr>\<rparr>\<rparr>,
            ?ks)"
    by (simp add: setup_destination_def get_destination_key_def create_destination_key_def
        create_key_def memory_defs helper_defs Let_def)
  have e: "(''s-a'', ''gone'')
      \<in> set (dict_setitem [(''s-a'', ''gone''), (''s-b'', ''key-0'')] ''s-c'' ''key-0'')"
    by simp
  have m: "map_of (dict_setitem [(''s-a'', ''gone''), (''s-b'', ''key-0'')] ''s-c'' ''key-0'')
       = (map_of [(''s-a'', ''gone''), (''s-b'', ''key-0'')])(''s-c'' \<mapsto> ''key-0'')"
    by (rule dict_setitem_map_of)
  from setup_destination_updates_one_entry[of ?b memory_service ?ks "''s-c''"] g v e m
  show ?thesis by (intro conjI) assumption+
qed

end
